theory Spec2Isabelle
  imports Complex_Main "HOL-Library.Word"
begin

unbundle bit_operations_syntax

section \<open>The export layer of the 2048 solver (src/wasm/export_solver.cpp)\<close>

subsection \<open>Machine types\<close>

text \<open>
  A C++ \<open>int\<close> is a 32-bit two's complement value on the WebAssembly target: a
  \<open>32 word\<close>, compared with the signed orders \<open><s\<close> and \<open>\<le>s\<close> and read with
  \<open>sint\<close>. Sizes and loop counters (\<open>size_t\<close>, and the \<open>int i\<close> that runs over
  \<open>0..16\<close>) never leave the small non-negative range and are \<open>nat\<close>.
\<close>

type_synonym cint = "32 word"

text \<open>
  Modelled from the spec: \<open>board_t\<close> is declared in \<open>game.hpp\<close>, which is not among
  the sources; the specification gives it as a 64-bit value of 16 nibble fields.
\<close>

type_synonym board_t = "64 word"

subsection \<open>Constants\<close>

definition kBoardTileCount :: nat where
  "kBoardTileCount = 16"

definition kTileBitWidth :: nat where
  "kTileBitWidth = 4"

definition kMaxExponent :: cint where
  "kMaxExponent = 0xF"

subsection \<open>Board codec\<close>

definition clampExponent :: "cint \<Rightarrow> cint" where
  "clampExponent v =
     (if v <s 0 then 0
      else if kMaxExponent <s v then kMaxExponent
      else v)"

text \<open>
  The body of the \<open>for\<close> loop of \<open>boardFromArray\<close>. The cast of the clamped
  \<open>int\<close> to \<open>board_t\<close> extends the sign (\<open>scast\<close>), as does the conversion of the
  \<open>int\<close> constant \<open>kMaxExponent\<close> in the mask; the shift is \<open>push_bit\<close> on 64 bits.
\<close>

function boardFromArray_loop :: "cint list \<Rightarrow> nat \<Rightarrow> nat \<Rightarrow> board_t \<Rightarrow> board_t" where
  "boardFromArray_loop tiles limit i board =
     (if i < limit then
        let exponent = (scast (clampExponent (tiles ! i)) :: board_t)
        in boardFromArray_loop tiles limit (i + 1)
             (board OR push_bit (i * kTileBitWidth) (exponent AND scast kMaxExponent))
      else board)"
  by pat_completeness auto
termination
  by (relation "measure (\<lambda>(tiles, limit, i, board). limit - i)") auto

declare boardFromArray_loop.simps [simp del]

text \<open>
  \<open>limit\<close> is at most \<open>tiles.size()\<close>, so every read \<open>tiles[i]\<close> of the loop is in
  range.
\<close>

definition boardFromArray :: "cint list \<Rightarrow> board_t" where
  "boardFromArray tiles =
     boardFromArray_loop tiles (min (length tiles) kBoardTileCount) 0 0"

text \<open>
  \<open>arrayFromBoard\<close> starts from a vector of 16 zeros and overwrites cell \<open>i\<close> in
  turn; the cast of the masked 64-bit value to \<open>int\<close> keeps the low 32 bits
  (\<open>ucast\<close>).
\<close>

function arrayFromBoard_loop :: "board_t \<Rightarrow> nat \<Rightarrow> cint list \<Rightarrow> cint list" where
  "arrayFromBoard_loop board i tiles =
     (if i < kBoardTileCount then
        arrayFromBoard_loop board (i + 1)
          (tiles[i := ucast (drop_bit (i * kTileBitWidth) board AND scast kMaxExponent)])
      else tiles)"
  by pat_completeness auto
termination
  by (relation "measure (\<lambda>(board, i, tiles). kBoardTileCount - i)") auto

declare arrayFromBoard_loop.simps [simp del]

definition arrayFromBoard :: "board_t \<Rightarrow> cint list" where
  "arrayFromBoard board = arrayFromBoard_loop board 0 (replicate kBoardTileCount 0)"

subsection \<open>Moves through the simulator\<close>

text \<open>
  \<open>GameSimulator\<close> lives in \<open>game.hpp\<close>, which is not among the sources, so its
  \<open>make_move\<close> is a parameter of the model. The parameter may fail (its table lookups
  are unknown here): it returns a sum, \<open>Inl\<close> the failure, and a failure of the
  simulator is a failure of the caller. The two guards of the export layer return
  before the simulator is reached.
\<close>

record 'e GameSimulator =
  make_move :: "board_t \<Rightarrow> cint \<Rightarrow> 'e + board_t"

definition isValidMove :: "'e GameSimulator \<Rightarrow> board_t \<Rightarrow> cint \<Rightarrow> 'e + bool" where
  "isValidMove sim board direction =
     (if direction <s 0 \<or> 3 <s direction then Inr False
      else case make_move sim board direction of
             Inl e \<Rightarrow> Inl e
           | Inr moved \<Rightarrow> Inr (board \<noteq> moved))"

definition makeMove :: "'e GameSimulator \<Rightarrow> board_t \<Rightarrow> cint \<Rightarrow> 'e + board_t" where
  "makeMove sim board direction =
     (if direction <s 0 \<or> 3 <s direction then Inr board
      else make_move sim board direction)"

subsection \<open>Names\<close>

text \<open>
  \<open>std::tolower\<close> on an \<open>unsigned char\<close> in the default "C" locale, which the
  program never changes: the 26 upper-case ASCII letters move by 32, every other byte
  stays. A \<open>std::string\<close> is a sequence of bytes, as a HOL \<open>string\<close> is.
\<close>

definition tolower :: "char \<Rightarrow> char" where
  "tolower ch =
     (if 65 \<le> (of_char ch :: nat) \<and> (of_char ch :: nat) \<le> 90
      then char_of (of_char ch + 32 :: nat)
      else ch)"

definition toLowerCopy :: "string \<Rightarrow> string" where
  "toLowerCopy v = map tolower v"

text \<open>
  Modelled from the spec: the evaluators of namespace \<open>heuristics\<close> are defined in
  \<open>heuristics.hpp\<close>, which is not among the sources. A \<open>heuristic_t\<close> is a pointer to
  one of them; the model keeps which one, with one constructor for each evaluator that
  the export layer names.
\<close>

datatype heuristic_t =
    score_heuristic
  | merge_heuristic
  | corner_heuristic
  | strict_wall_heuristic
  | wall_gap_heuristic
  | full_wall_heuristic
  | skewed_corner_heuristic
  | monotonicity_heuristic

definition resolveHeuristic :: "string \<Rightarrow> heuristic_t" where
  "resolveHeuristic name =
     (let key = toLowerCopy name in
      if key = ''score'' then score_heuristic
      else if key = ''merge'' then merge_heuristic
      else if key = ''corner'' \<or> key = ''corner_bias'' then corner_heuristic
      else if key = ''wall'' \<or> key = ''strict_wall'' then strict_wall_heuristic
      else if key = ''wall_gap'' then wall_gap_heuristic
      else if key = ''full_wall'' then full_wall_heuristic
      else if key = ''skewed_corner'' then skewed_corner_heuristic
      else if key = ''monotonicity'' then monotonicity_heuristic
      else corner_heuristic)"

subsection \<open>Strategy factory\<close>

text \<open>
  The factory converts the \<open>double\<close> probability to \<open>float\<close>, compares it with
  \<open>0.0f\<close> and may replace it by \<open>0.001f\<close>. Floating point is kept abstract: the
  types \<open>'d\<close> (double) and \<open>'f\<close> (float) and these operations are parameters, so
  that nothing below depends on how they round.
\<close>

record ('d, 'f) float_ops =
  float_of_double :: "'d \<Rightarrow> 'f"
  float_gt_zero :: "'f \<Rightarrow> bool"
  float_0_001 :: 'f
  double_0_0025 :: 'd

text \<open>
  One instance of the parameters, for evaluating the factory at concrete inputs: exact
  reals in place of both floating-point types, with no rounding.
\<close>

abbreviation exact_float_ops :: "(real, real) float_ops" where
  "exact_float_ops \<equiv>
     \<lparr>float_of_double = (\<lambda>d. d), float_gt_zero = (\<lambda>f. 0 < f),
      float_0_001 = 1 / 1000, double_0_0025 = 25 / 10000\<rparr>"

text \<open>
  Modelled from the spec: the strategy classes are defined in the headers under
  \<open>strategies/\<close>, which are not among the sources. A strategy is modelled as the
  constructor call that makes it: a closed variant over the five kinds, each holding
  the arguments that \<open>makeStrategy\<close> passes, in the order it passes them.
\<close>

datatype ('h, 'f) Strategy =
    ExpectimaxDepthStrategy cint 'h
  | ExpectimaxProbabilityStrategy 'f 'h
  | MonteCarloPlayer cint
  | RandomTrialsStrategy cint cint cint
  | RandomPlayer

text \<open>\<open>std::max\<close> on \<open>int\<close>: the second argument when the first is smaller.\<close>

definition std_max :: "cint \<Rightarrow> cint \<Rightarrow> cint" where
  "std_max a b = (if a <s b then b else a)"

text \<open>
  The product \<open>depth * 128\<close> is a product of \<open>int\<close>. C++ leaves its overflow
  undefined; the file is built for 32-bit WebAssembly, whose multiplication wraps
  around, and the model is that 32-bit product.
\<close>

definition makeStrategy ::
  "('d, 'f) float_ops \<Rightarrow> string \<Rightarrow> 'h \<Rightarrow> cint \<Rightarrow> 'd \<Rightarrow> cint \<Rightarrow> ('h, 'f) Strategy" where
  "makeStrategy fp type evaluator depth probability trials =
     (let key = toLowerCopy type in
      if key = ''expectimax-depth'' \<or> key = ''expectimax'' then
        let effectiveDepth = (if depth \<le>s 0 then 4 else depth)
        in ExpectimaxDepthStrategy effectiveDepth evaluator
      else if key = ''expectimax-probability'' then
        let prob = float_of_double fp probability;
            prob = (if \<not> float_gt_zero fp prob then float_0_001 fp else prob)
        in ExpectimaxProbabilityStrategy prob evaluator
      else if key = ''monte-carlo'' then
        let iterations = (if 0 <s trials then trials else std_max 128 (depth * 128))
        in MonteCarloPlayer iterations
      else if key = ''random-trials'' then
        let branchDepth = (if 0 <s depth then depth else 3);
            gamesPerMove = (if 0 <s trials then trials else 32)
        in RandomTrialsStrategy gamesPerMove branchDepth 2
      else if key = ''random'' then RandomPlayer
      else
        let fallbackDepth = (if depth \<le>s 0 then 4 else depth)
        in ExpectimaxDepthStrategy fallbackDepth evaluator)"

subsection \<open>The strategy wrapper\<close>

text \<open>
  The data members of \<open>StrategyWrapper\<close>; the member \<open>strategy_\<close> of the source is
  the field \<open>m_strategy\<close> here, and so on for the others. \<open>strategy_\<close> is a
  \<open>unique_ptr\<close>, empty or owning one strategy.
\<close>

record ('h, 'd, 'f) StrategyWrapper =
  m_strategy :: "('h, 'f) Strategy option"
  m_evaluator :: 'h
  m_strategy_type :: string
  m_heuristic_name :: string
  m_depth :: cint
  m_probability :: 'd
  m_trials :: cint

definition configure ::
  "('d, 'f) float_ops \<Rightarrow> (heuristic_t, 'd, 'f) StrategyWrapper \<Rightarrow> string \<Rightarrow> string \<Rightarrow> cint \<Rightarrow> 'd
     \<Rightarrow> (heuristic_t, 'd, 'f) StrategyWrapper" where
  "configure fp w type heuristic depth probability =
     (let w = w\<lparr>m_strategy_type := toLowerCopy type\<rparr>;
          w = w\<lparr>m_heuristic_name := toLowerCopy heuristic\<rparr>;
          w = w\<lparr>m_depth := depth\<rparr>;
          w = w\<lparr>m_probability := probability\<rparr>;
          w = w\<lparr>m_evaluator := resolveHeuristic (m_heuristic_name w)\<rparr>
      in w\<lparr>m_strategy :=
           Some (makeStrategy fp (m_strategy_type w) (m_evaluator w) (m_depth w)
                   (m_probability w) (m_trials w))\<rparr>)"

definition setTrials ::
  "('d, 'f) float_ops \<Rightarrow> ('h, 'd, 'f) StrategyWrapper \<Rightarrow> cint \<Rightarrow> ('h, 'd, 'f) StrategyWrapper" where
  "setTrials fp w trials =
     (let w = w\<lparr>m_trials := trials\<rparr>
      in w\<lparr>m_strategy :=
           Some (makeStrategy fp (m_strategy_type w) (m_evaluator w) (m_depth w)
                   (m_probability w) (m_trials w))\<rparr>)"

text \<open>
  The constructor: the default member initialisers, with \<open>m_strategy_type\<close> and
  \<open>m_heuristic_name\<close> taken from the initialiser list and an empty \<open>strategy_\<close>, then
  the call of \<open>configure\<close> on the two stored names.
\<close>

definition StrategyWrapper_new ::
  "('d, 'f) float_ops \<Rightarrow> string \<Rightarrow> string \<Rightarrow> cint \<Rightarrow> 'd \<Rightarrow> (heuristic_t, 'd, 'f) StrategyWrapper" where
  "StrategyWrapper_new fp type heuristic depth probability =
     (let w = \<lparr>m_strategy = None,
               m_evaluator = corner_heuristic,
               m_strategy_type = toLowerCopy type,
               m_heuristic_name = toLowerCopy heuristic,
               m_depth = 4,
               m_probability = double_0_0025 fp,
               m_trials = 256\<rparr>
      in configure fp w (m_strategy_type w) (m_heuristic_name w) depth probability)"

section \<open>Properties of the board codec\<close>

subsection \<open>Clamped exponents fit a nibble\<close>

lemma clampExponent_cases: "clampExponent v = (if sint v < 0 then 0 else if 15 < sint v then 15 else v)"
  by (simp add: clampExponent_def kMaxExponent_def word_sless_alt)

lemma small_word:
  fixes v :: cint
  assumes "0 \<le> sint v" "sint v \<le> 15"
  shows "take_bit 4 v = v"
proof -
  have "take_bit 4 (sint v) = sint v"
    using assms by (simp add: take_bit_int_eq_self)
  then have "take_bit 4 (word_of_int (sint v) :: cint) = word_of_int (sint v)"
    by (simp only: take_bit_of_int)
  then show ?thesis by simp
qed

lemma clampExponent_take_bit: "take_bit 4 (clampExponent v) = clampExponent v"
  by (rule small_word) (simp_all add: clampExponent_cases)

lemma clampExponent_bit: "bit (clampExponent v) k \<Longrightarrow> k < 4"
  by (subst (asm) clampExponent_take_bit [symmetric]) (simp add: bit_take_bit_iff)

lemma scast_kMax: "(scast kMaxExponent :: board_t) = 15"
  by (simp add: kMaxExponent_def)

lemma mask4: "(15 :: 'a::len word) = mask 4"
  by (simp add: mask_eq_exp_minus_1)

lemma bit_nib: "bit ((scast (clampExponent v) :: board_t) AND scast kMaxExponent) k \<longleftrightarrow> bit (clampExponent v) k"
proof (cases "k < 4")
  case True
  then have "min 31 k = k" by simp
  with True show ?thesis
  by (simp add: scast_kMax mask4 bit_and_iff bit_mask_iff bit_word_scast_iff)
next
  case False
  then show ?thesis
  using clampExponent_bit [of v k]
  by (auto simp add: scast_kMax mask4 bit_and_iff bit_mask_iff)
qed

lemma bit_shifted_nibble:
  "bit (push_bit (i * kTileBitWidth) ((scast (clampExponent v) :: board_t) AND scast kMaxExponent)) n
     \<longleftrightarrow> n < 64 \<and> n div 4 = i \<and> bit (clampExponent v) (n mod 4)"
proof -
  have "bit (push_bit (i * 4) ((scast (clampExponent v) :: board_t) AND scast kMaxExponent)) n
     \<longleftrightarrow> i * 4 \<le> n \<and> n < 64 \<and> bit (clampExponent v) (n - i * 4)"
    by (simp only: bit_push_bit_iff bit_nib) (auto simp add: possible_bit_word)
  also have "\<dots> \<longleftrightarrow> n < 64 \<and> n div 4 = i \<and> bit (clampExponent v) (n mod 4)"
  proof (cases "n div 4 = i")
    case True
    then have "i * 4 \<le> n" "n - i * 4 = n mod 4" by (auto simp: minus_mult_div_eq_mod algebra_simps)
    then show ?thesis using True by simp
  next
    case False
    have "\<not> (i * 4 \<le> n \<and> n - i * 4 < 4)" using False by auto
    then show ?thesis using False clampExponent_bit [of v "n - i * 4"] by auto
  qed
  finally show ?thesis by (simp add: kTileBitWidth_def)
qed

lemma bit_boardFromArray_loop:
  "bit (boardFromArray_loop tiles limit i board) n \<longleftrightarrow>
     bit board n \<or>
     (n < 64 \<and> i \<le> n div 4 \<and> n div 4 < limit \<and> bit (clampExponent (tiles ! (n div 4))) (n mod 4))"
proof (induction tiles limit i board rule: boardFromArray_loop.induct)
  case (1 tiles limit i board)
  show ?case
  proof (cases "i < limit")
    case True
    have "i \<le> n div 4 \<longleftrightarrow> n div 4 = i \<or> i + 1 \<le> n div 4" by auto
    then show ?thesis
      using 1 [OF True refl] True
      by (subst boardFromArray_loop.simps) (auto simp add: Let_def bit_or_iff bit_shifted_nibble simp del: push_bit_and)
  next
    case False
    then show ?thesis
      by (subst boardFromArray_loop.simps) auto
  qed
qed

lemma bit_boardFromArray:
  "bit (boardFromArray tiles) n \<longleftrightarrow>
     n div 4 < min (length tiles) 16 \<and> bit (clampExponent (tiles ! (n div 4))) (n mod 4)"
  by (auto simp add: boardFromArray_def bit_boardFromArray_loop kBoardTileCount_def)


lemma length_arrayFromBoard_loop:
  "length (arrayFromBoard_loop board i tiles) = length tiles"
proof (induction board i tiles rule: arrayFromBoard_loop.induct)
  case (1 board i tiles)
  then show ?case
    by (subst arrayFromBoard_loop.simps) simp
qed

lemma nth_arrayFromBoard_loop:
  "j < length tiles \<Longrightarrow>
   arrayFromBoard_loop board i tiles ! j =
     (if i \<le> j \<and> j < kBoardTileCount
      then ucast (drop_bit (j * kTileBitWidth) board AND scast kMaxExponent)
      else tiles ! j)"
proof (induction board i tiles rule: arrayFromBoard_loop.induct)
  case (1 board i tiles)
  show ?case
  proof (cases "i < kBoardTileCount")
    case True
    have "i \<le> j \<longleftrightarrow> j = i \<or> i + 1 \<le> j" by auto
    then show ?thesis
      using 1(1) [OF True] 1(2) True
      by (subst arrayFromBoard_loop.simps) (auto simp add: nth_list_update)
  next
    case False
    then show ?thesis
      by (subst arrayFromBoard_loop.simps) auto
  qed
qed

lemma length_arrayFromBoard: "length (arrayFromBoard board) = 16"
  by (simp add: arrayFromBoard_def length_arrayFromBoard_loop kBoardTileCount_def)

lemma nth_arrayFromBoard:
  "j < 16 \<Longrightarrow>
   arrayFromBoard board ! j = ucast (drop_bit (j * kTileBitWidth) board AND scast kMaxExponent)"
  by (simp add: arrayFromBoard_def nth_arrayFromBoard_loop kBoardTileCount_def)

lemma bit_nibble:
  "bit (ucast (drop_bit (j * kTileBitWidth) (board :: board_t) AND scast kMaxExponent) :: cint) k
     \<longleftrightarrow> k < 4 \<and> bit board (j * 4 + k)"
  by (auto simp add: scast_kMax mask4 kTileBitWidth_def bit_word_ucast_iff bit_and_iff
        bit_mask_iff bit_drop_bit_eq)

lemma nibble_boardFromArray:
  "j < 16 \<Longrightarrow>
   (ucast (drop_bit (j * kTileBitWidth) (boardFromArray tiles) AND scast kMaxExponent) :: cint) =
     (if j < length tiles then clampExponent (tiles ! j) else 0)"
proof (rule bit_word_eqI)
  fix k
  assume j: "j < 16"
  show "bit (ucast (drop_bit (j * kTileBitWidth) (boardFromArray tiles) AND scast kMaxExponent) :: cint) k
      \<longleftrightarrow> bit (if j < length tiles then clampExponent (tiles ! j) else 0) k"
  proof (cases "k < 4")
    case True
    then have "(j * 4 + k) div 4 = j" "(j * 4 + k) mod 4 = k" by simp_all
    then show ?thesis using True j by (simp add: bit_nibble bit_boardFromArray)
  next
    case False
    then show ?thesis using clampExponent_bit [of "tiles ! j" k] by (auto simp add: bit_nibble)
  qed
qed

lemma clampExponent_id:
  "0 \<le> sint v \<Longrightarrow> sint v \<le> 15 \<Longrightarrow> clampExponent v = v"
  by (simp add: clampExponent_cases)

lemma sint_small:
  fixes v :: cint
  assumes "take_bit 4 v = v"
  shows "0 \<le> sint v \<and> sint v \<le> 15"
proof -
  have "uint v = take_bit 4 (uint v)"
    by (subst assms [symmetric]) (simp only: unsigned_take_bit_eq)
  also have "\<dots> < 2 ^ 4" by (rule take_bit_int_less_exp)
  finally have "uint v < 16" by simp
  then have upper: "uint v < 2 ^ 31" by simp
  have "(- (2 ^ 31) :: int) \<le> 0" by simp
  also have "0 \<le> uint v" by (rule uint_ge_0)
  finally have "signed_take_bit 31 (uint v) = uint v"
    using upper by (rule signed_take_bit_int_eq_self)
  then have "sint v = uint v" by (simp add: sint_uint)
  with \<open>uint v < 16\<close> show ?thesis by simp
qed

lemma nibble_take_bit:
  "take_bit 4 (ucast (drop_bit (j * kTileBitWidth) (board :: board_t) AND scast kMaxExponent) :: cint)
     = ucast (drop_bit (j * kTileBitWidth) board AND scast kMaxExponent)"
  by (rule bit_word_eqI) (auto simp add: bit_take_bit_iff bit_nibble)

lemma clampExponent_nibble:
  "clampExponent (ucast (drop_bit (j * kTileBitWidth) (board :: board_t) AND scast kMaxExponent))
     = ucast (drop_bit (j * kTileBitWidth) board AND scast kMaxExponent)"
  using sint_small [OF nibble_take_bit] by (intro clampExponent_id) simp_all

lemma clampExponent_idem: "clampExponent (clampExponent v) = clampExponent v"
  using sint_small [OF clampExponent_take_bit] by (intro clampExponent_id) simp_all

lemma boardFromArray_arrayFromBoard: "boardFromArray (arrayFromBoard board) = board"
proof (rule bit_word_eqI)
  fix n assume "n < LENGTH(64)"
  then have n: "n div 4 < 16" by simp
  have "n div 4 * 4 + n mod 4 = n" by simp
  then show "bit (boardFromArray (arrayFromBoard board)) n \<longleftrightarrow> bit board n"
    using n
    by (simp add: bit_boardFromArray length_arrayFromBoard nth_arrayFromBoard
          clampExponent_nibble bit_nibble)
qed

lemma arrayFromBoard_boardFromArray:
  "arrayFromBoard (boardFromArray tiles) =
     map clampExponent (take 16 tiles) @ replicate (16 - length tiles) 0"
  by (rule nth_equalityI)
     (auto simp add: length_arrayFromBoard nth_arrayFromBoard nibble_boardFromArray nth_append)


lemma clampExponent_spec: "clampExponent v = word_of_int (max 0 (min 15 (sint v)))"
  by (simp add: clampExponent_cases max_def min_def)

lemma boardFromArray_map_clampExponent:
  "boardFromArray (map clampExponent tiles) = boardFromArray tiles"
  by (rule bit_word_eqI) (auto simp add: bit_boardFromArray clampExponent_idem)

subsection \<open>Claims about the codec\<close>

text \<open>
  C1. Round trip: for every sequence \<open>v\<close> of 16 integers whose values all lie in
  \<open>[0,15]\<close>, decoding the encoded board gives \<open>v\<close> back.
\<close>

theorem boardFromArray_round_trip:
  assumes "length v = 16" and "\<forall>x\<in>set v. 0 \<le>s x \<and> x \<le>s 15"
  shows "arrayFromBoard (boardFromArray v) = v"
proof -
  have "map clampExponent v = v"
    using assms(2) by (intro map_idI clampExponent_id) (simp_all add: word_sle_eq)
  then show ?thesis
    using assms(1) by (simp add: arrayFromBoard_boardFromArray)
qed

theorem boardFromArray_round_trip_witness:
  "arrayFromBoard (boardFromArray [0, 1, 2, 3, 4, 5, 6, 7, 8, 9, 10, 11, 12, 13, 14, 15])
     = [0, 1, 2, 3, 4, 5, 6, 7, 8, 9, 10, 11, 12, 13, 14, 15]"
  by (rule boardFromArray_round_trip) (simp_all add: word_sle_eq)

text \<open>
  C3. Every input value is clamped to \<open>[0,15]\<close> before it is packed: the board of
  \<open>v\<close> is the board of the pointwise clamped sequence, and the nibble of every cell
  that the loop writes holds the clamped value. \<open>boardFromArray\<close> has no failing
  branch.
\<close>

theorem boardFromArray_clamps:
  "boardFromArray v = boardFromArray (map (\<lambda>x. word_of_int (max 0 (min 15 (sint x)))) v) \<and>
   (\<forall>j < min (length v) 16.
      (ucast (drop_bit (j * 4) (boardFromArray v) AND 15) :: cint)
        = word_of_int (max 0 (min 15 (sint (v ! j)))))"
proof
  show "boardFromArray v = boardFromArray (map (\<lambda>x. word_of_int (max 0 (min 15 (sint x)))) v)"
    using boardFromArray_map_clampExponent [of v] by (simp add: clampExponent_spec [abs_def])
next
  show "\<forall>j < min (length v) 16.
      (ucast (drop_bit (j * 4) (boardFromArray v) AND 15) :: cint)
        = word_of_int (max 0 (min 15 (sint (v ! j))))"
    using nibble_boardFromArray [of _ v]
    by (simp add: kTileBitWidth_def scast_kMax clampExponent_spec)
qed

theorem boardFromArray_clamps_witness:
  "boardFromArray [- 1, 16, 7] = boardFromArray [0, 15, 7] \<and>
   (ucast (drop_bit 4 (boardFromArray [- 1, 16, 7]) AND 15) :: cint) = 15"
proof -
  note clamps = boardFromArray_clamps [of "[- 1, 16, 7]"]
  have "boardFromArray [- 1, 16, 7] = boardFromArray [0, 15, 7]"
    using clamps [THEN conjunct1] by simp
  moreover have "(ucast (drop_bit (1 * 4) (boardFromArray [- 1, 16, 7]) AND 15) :: cint)
      = word_of_int (max 0 (min 15 (sint ([- 1, 16, 7 :: cint] ! 1))))"
    using clamps [THEN conjunct2, rule_format, of 1] by simp
  ultimately show ?thesis by simp
qed

text \<open>
  C4. Encoding is idempotent after one clamp: encoding the decoded encoding of any
  sequence \<open>x\<close> gives the encoding of \<open>x\<close>.
\<close>

theorem boardFromArray_idempotent:
  "boardFromArray (arrayFromBoard (boardFromArray x)) = boardFromArray x"
  by (simp only: boardFromArray_arrayFromBoard)

text \<open>
  C10. \<open>boardFromArray\<close> takes a sequence of any length: entries from index 16 on
  are ignored, and every cell beyond the values supplied is empty (nibble 0), so the
  board of \<open>v\<close> is the board of \<open>v\<close> cut to 16 entries and filled up with zeros.
\<close>

theorem boardFromArray_any_length:
  "boardFromArray v = boardFromArray (take 16 v @ replicate (16 - length v) 0) \<and>
   boardFromArray v = boardFromArray (take 16 v) \<and>
   (\<forall>j. length v \<le> j \<longrightarrow> drop_bit (j * 4) (boardFromArray v) AND 15 = 0)"
proof (intro conjI allI impI)
  have zero: "clampExponent 0 = 0" by (simp add: clampExponent_cases)
  show "boardFromArray v = boardFromArray (take 16 v @ replicate (16 - length v) 0)"
    by (rule bit_word_eqI) (auto simp add: bit_boardFromArray nth_append zero)
  show "boardFromArray v = boardFromArray (take 16 v)"
    by (rule bit_word_eqI) (auto simp add: bit_boardFromArray)
next
  fix j
  assume j: "length v \<le> j"
  show "drop_bit (j * 4) (boardFromArray v) AND 15 = 0"
  proof (rule bit_word_eqI)
    fix k
    have "(j * 4 + k) div 4 = j" if "k < 4" using that by simp
    then show "bit (drop_bit (j * 4) (boardFromArray v) AND 15) k \<longleftrightarrow> bit (0 :: board_t) k"
      using j by (auto simp add: mask4 bit_and_iff bit_mask_iff bit_drop_bit_eq bit_boardFromArray)
  qed
qed

theorem boardFromArray_any_length_witness:
  "boardFromArray [3, 5] = boardFromArray [3, 5, 0, 0, 0, 0, 0, 0, 0, 0, 0, 0, 0, 0, 0, 0] \<and>
   drop_bit 8 (boardFromArray [3, 5]) AND 15 = 0"
proof -
  note len = boardFromArray_any_length [of "[3, 5]"]
  have "boardFromArray [3, 5] = boardFromArray [3, 5, 0, 0, 0, 0, 0, 0, 0, 0, 0, 0, 0, 0, 0, 0]"
    using len [THEN conjunct1] by (simp add: numeral_eq_Suc)
  moreover have "drop_bit (2 * 4) (boardFromArray [3, 5]) AND 15 = 0"
    using len [THEN conjunct2, THEN conjunct2, rule_format, of 2] by simp
  ultimately show ?thesis by simp
qed

section \<open>Properties of moves, names and the factory\<close>

lemma tolower_idem: "tolower (tolower ch) = tolower ch"
  by (auto simp add: tolower_def)

lemma toLowerCopy_idem: "toLowerCopy (toLowerCopy s) = toLowerCopy s"
  by (simp add: toLowerCopy_def tolower_idem)

text \<open>
  C2. For every direction \<open>d\<close> and board \<open>b\<close>, \<open>isValidMove\<close> returns true exactly
  when \<open>d\<close> is in \<open>0..3\<close> and \<open>makeMove\<close> returns a board other than \<open>b\<close>; for \<open>d\<close>
  outside \<open>0..3\<close> the move is reported invalid and \<open>makeMove\<close> returns \<open>b\<close>, both
  without a failure, whatever the simulator would do.
\<close>

theorem isValidMove_iff:
  "(isValidMove sim b d = Inr True \<longleftrightarrow>
      0 \<le>s d \<and> d \<le>s 3 \<and> (\<exists>b'. makeMove sim b d = Inr b' \<and> b' \<noteq> b)) \<and>
   (d <s 0 \<or> 3 <s d \<longrightarrow> isValidMove sim b d = Inr False \<and> makeMove sim b d = Inr b)"
  by (auto simp add: isValidMove_def makeMove_def word_sless_alt word_sle_eq split: sum.splits)

theorem isValidMove_iff_witness:
  "isValidMove \<lparr>make_move = \<lambda>b d. Inl ()\<rparr> 0 7 = Inr False \<and>
   makeMove \<lparr>make_move = \<lambda>b d. Inl ()\<rparr> 0 7 = Inr 0 \<and>
   isValidMove \<lparr>make_move = \<lambda>b d. (Inr (b + 1) :: unit + board_t)\<rparr> 0 2 = Inr True"
proof -
  have "isValidMove \<lparr>make_move = \<lambda>b d. Inl ()\<rparr> 0 7 = Inr False \<and>
      makeMove \<lparr>make_move = \<lambda>b d. Inl ()\<rparr> 0 7 = Inr 0"
    using isValidMove_iff [of "\<lparr>make_move = \<lambda>b d. Inl ()\<rparr>" 0 7]
    by (simp add: word_sless_alt)
  moreover have "isValidMove \<lparr>make_move = \<lambda>b d. (Inr (b + 1) :: unit + board_t)\<rparr> 0 2 = Inr True"
    using isValidMove_iff [of "\<lparr>make_move = \<lambda>b d. (Inr (b + 1) :: unit + board_t)\<rparr>" 0 2]
    by (simp add: word_sle_eq makeMove_def word_sless_alt)
  ultimately show ?thesis by simp
qed

text \<open>
  C5. Heuristic names are resolved without regard to case: a name and its lower-case
  copy resolve alike; and a name whose lower-case copy is none of the recognised
  identifiers resolves to the corner heuristic.
\<close>

theorem resolveHeuristic_case_insensitive:
  "resolveHeuristic s = resolveHeuristic (toLowerCopy s) \<and>
   (toLowerCopy s \<notin> {''score'', ''merge'', ''corner'', ''corner_bias'', ''wall'',
        ''strict_wall'', ''wall_gap'', ''full_wall'', ''skewed_corner'', ''monotonicity''}
      \<longrightarrow> resolveHeuristic s = corner_heuristic)"
  by (simp add: resolveHeuristic_def toLowerCopy_idem)

theorem resolveHeuristic_case_insensitive_witness:
  "resolveHeuristic ''Wall_Gap'' = resolveHeuristic ''wall_gap'' \<and>
   resolveHeuristic ''Bogus'' = corner_heuristic"
proof -
  have low: "toLowerCopy ''Wall_Gap'' = ''wall_gap''" "toLowerCopy ''Bogus'' = ''bogus''"
    by code_simp+
  have "resolveHeuristic ''Wall_Gap'' = resolveHeuristic ''wall_gap''"
    using resolveHeuristic_case_insensitive [of "''Wall_Gap''"] by (simp only: low)
  moreover have "resolveHeuristic ''Bogus'' = corner_heuristic"
  proof -
    have "toLowerCopy ''Bogus'' \<notin> {''score'', ''merge'', ''corner'', ''corner_bias'', ''wall'',
        ''strict_wall'', ''wall_gap'', ''full_wall'', ''skewed_corner'', ''monotonicity''}"
      unfolding low by simp
    with resolveHeuristic_case_insensitive [of "''Bogus''", THEN conjunct2]
    show ?thesis by (rule mp)
  qed
  ultimately show ?thesis by (rule conjI)
qed

text \<open>
  C6. With the unrecognised type \<open>bogus-type\<close>, the unrecognised heuristic
  \<open>bogus-heuristic\<close>, depth 0 and any probability (so also -1), the factory builds
  an expectimax-depth strategy of depth 4 with the corner heuristic, and so does the
  constructor of the wrapper.
\<close>

theorem makeStrategy_defaults:
  "makeStrategy fp ''bogus-type'' (resolveHeuristic ''bogus-heuristic'') 0 p trials
     = ExpectimaxDepthStrategy 4 corner_heuristic \<and>
   m_strategy (StrategyWrapper_new fp ''bogus-type'' ''bogus-heuristic'' 0 p)
     = Some (ExpectimaxDepthStrategy 4 corner_heuristic)"
proof -
  have low: "toLowerCopy ''bogus-type'' = ''bogus-type''"
    "toLowerCopy ''bogus-heuristic'' = ''bogus-heuristic''"
    by code_simp+
  have h: "resolveHeuristic ''bogus-heuristic'' = corner_heuristic"
    by (simp add: resolveHeuristic_def low)
  have s: "makeStrategy fp ''bogus-type'' ev 0 p t = ExpectimaxDepthStrategy 4 ev" for ev :: heuristic_t and t
    by (simp add: makeStrategy_def low word_sle_eq)
  show ?thesis
    by (simp add: StrategyWrapper_new_def configure_def h s low)
qed

text \<open>
  Where \<open>depth * 128\<close> fits in an \<open>int\<close>, the 32-bit product is the product of the
  integers; \<open>std::max\<close> is the maximum of the signed values.
\<close>

lemma sint_times_128:
  fixes depth :: cint
  assumes "- (2 ^ 24) \<le> sint depth" "sint depth < 2 ^ 24"
  shows "sint (depth * 128) = sint depth * 128"
proof -
  have "sint (depth * 128) = signed_take_bit 31 (sint depth * sint (128 :: cint))"
    by (simp only: sint_word_ariths) simp
  also have "\<dots> = signed_take_bit 31 (sint depth * 128)" by simp
  also have "\<dots> = sint depth * 128"
    using assms by (intro signed_take_bit_int_eq_self) simp_all
  finally show ?thesis .
qed

lemma std_max_sint: "sint (std_max a b) = max (sint a) (sint b)"
  by (simp add: std_max_def word_sless_alt max_def)

text \<open>
  C7, as amended. For the type \<open>monte-carlo\<close>, when \<open>depth * 128\<close> fits in an
  \<open>int\<close> (\<open>- 2 ^ 24 \<le> depth < 2 ^ 24\<close>), a trial count that is not positive is
  replaced by the larger of 128 and the integer \<open>depth * 128\<close>; a positive trial count
  is used as given, for every depth; depth 2 with trials 0 gives 256 iterations.
\<close>

theorem makeStrategy_monte_carlo:
  "(- (2 ^ 24) \<le> sint depth \<and> sint depth < 2 ^ 24 \<and> trials \<le>s 0 \<longrightarrow>
      (\<exists>iterations.
         makeStrategy fp ''monte-carlo'' ev depth p trials = MonteCarloPlayer iterations \<and>
         sint iterations = max 128 (sint depth * 128))) \<and>
   (0 <s trials \<longrightarrow> makeStrategy fp ''monte-carlo'' ev depth p trials = MonteCarloPlayer trials) \<and>
   makeStrategy fp ''monte-carlo'' ev 2 p 0 = MonteCarloPlayer 256"
proof -
  have low: "toLowerCopy ''monte-carlo'' = ''monte-carlo''"
    by code_simp
  have mc: "makeStrategy fp ''monte-carlo'' ev depth p trials =
      MonteCarloPlayer (if 0 <s trials then trials else std_max 128 (depth * 128))"
    for depth trials
    by (simp add: makeStrategy_def low)
  have in_range: "sint (std_max 128 (depth * 128)) = max 128 (sint depth * 128)"
    if "- (2 ^ 24) \<le> sint depth" "sint depth < 2 ^ 24"
    using sint_times_128 [OF that] by (simp add: std_max_sint)
  have "makeStrategy fp ''monte-carlo'' ev 2 p 0 = MonteCarloPlayer 256"
    by (simp add: mc std_max_def word_sless_alt)
  then show ?thesis
    by (auto simp add: mc in_range word_sless_alt word_sle_eq)
qed

theorem makeStrategy_monte_carlo_witness:
  "makeStrategy exact_float_ops ''monte-carlo'' corner_heuristic 3 (- 1) (- 5)
     = MonteCarloPlayer 384 \<and>
   makeStrategy exact_float_ops ''monte-carlo'' corner_heuristic 3 (- 1) 1000
     = MonteCarloPlayer 1000"
proof -
  note mc = makeStrategy_monte_carlo [of _ _ exact_float_ops corner_heuristic "- 1"]
  have "\<exists>iterations.
      makeStrategy exact_float_ops ''monte-carlo'' corner_heuristic 3 (- 1) (- 5)
        = MonteCarloPlayer iterations \<and> sint iterations = max 128 (sint (3 :: cint) * 128)"
    using mc [of 3 "- 5", THEN conjunct1] by (simp add: word_sle_eq)
  then obtain iterations :: cint where
    it: "makeStrategy exact_float_ops ''monte-carlo'' corner_heuristic 3 (- 1) (- 5)
        = MonteCarloPlayer iterations" "sint iterations = 384"
    by auto
  have "sint iterations = sint (384 :: cint)" using it(2) by simp
  then have "iterations = 384" by (simp only: word_eq_iff_signed [symmetric])
  with it(1) have "makeStrategy exact_float_ops ''monte-carlo'' corner_heuristic 3 (- 1) (- 5)
      = MonteCarloPlayer 384" by simp
  moreover have "makeStrategy exact_float_ops ''monte-carlo'' corner_heuristic 3 (- 1) 1000
      = MonteCarloPlayer 1000"
    using mc [of _ 1000, THEN conjunct2, THEN conjunct1] by (simp add: word_sless_alt)
  ultimately show ?thesis by (rule conjI)
qed

text \<open>
  C7 as first stated, for every depth, fails where the product leaves the range of
  \<open>int\<close>: at depth \<open>- 2 ^ 24 - 1\<close> with trials 0 the integer
  \<open>max 128 (depth * 128)\<close> is 128, and the 32-bit product gives 2147483520
  iterations.
\<close>

theorem makeStrategy_monte_carlo_counterexample:
  "makeStrategy exact_float_ops ''monte-carlo'' corner_heuristic (- 16777217) (- 1) 0
     = MonteCarloPlayer 2147483520 \<and>
   sint (2147483520 :: cint) = 2147483520 \<and>
   max 128 (sint (- 16777217 :: cint) * 128) = 128 \<and>
   sint (2147483520 :: cint) \<noteq> max 128 (sint (- 16777217 :: cint) * 128)"
proof -
  have low: "toLowerCopy ''monte-carlo'' = ''monte-carlo''"
    by code_simp
  show ?thesis
    by (simp add: makeStrategy_def low std_max_def word_sless_alt)
qed

text \<open>
  C8. For the type \<open>random-trials\<close>, trials that are not positive give 32 games per
  move, a depth that is not positive gives branch depth 3, positive values are used as
  given, and the width is always 2; depth 0 with trials 0 gives 32, 3 and 2.
\<close>

theorem makeStrategy_random_trials:
  "makeStrategy fp ''random-trials'' ev depth p trials
     = RandomTrialsStrategy (if trials \<le>s 0 then 32 else trials) (if depth \<le>s 0 then 3 else depth) 2 \<and>
   makeStrategy fp ''random-trials'' ev 0 p 0 = RandomTrialsStrategy 32 3 2"
proof -
  have low: "toLowerCopy ''random-trials'' = ''random-trials''"
    by code_simp
  show ?thesis
    by (simp add: makeStrategy_def low word_sless_alt word_sle_eq)
qed

text \<open>
  C9. \<open>setTrials\<close> stores the new trial count and rebuilds the strategy from the
  stored type, evaluator, depth and probability with the new count; every other
  member of the wrapper keeps its value.
\<close>

theorem setTrials_frame:
  "m_trials (setTrials fp w trials) = trials \<and>
   m_strategy (setTrials fp w trials)
     = Some (makeStrategy fp (m_strategy_type w) (m_evaluator w) (m_depth w) (m_probability w) trials) \<and>
   m_strategy_type (setTrials fp w trials) = m_strategy_type w \<and>
   m_heuristic_name (setTrials fp w trials) = m_heuristic_name w \<and>
   m_evaluator (setTrials fp w trials) = m_evaluator w \<and>
   m_depth (setTrials fp w trials) = m_depth w \<and>
   m_probability (setTrials fp w trials) = m_probability w"
  by (simp add: setTrials_def)

end
